theory Spec2Isabelle
  imports Complex_Main
begin

section \<open>Python values and exceptions\<close>

text \<open>
  The module \<^verbatim>\<open>qlsc_base.py\<close> raises \<^verbatim>\<open>ValueError\<close> for every range and
  argument check (the specification calls these DomainError, ConfigurationError and
  ArgumentError). The other constructors are the exceptions the interpreter itself
  raises on the paths modelled below: comparing \<^verbatim>\<open>None\<close> or a list with a number
  (TypeError), reading an unbound global name (NameError), indexing a list out of
  range (IndexError), calling a missing method (AttributeError), using a closed
  SQLite connection (ProgrammingError), and the module's own \<^verbatim>\<open>raise Exception\<close>.
  A \<^verbatim>\<open>ValueError\<close> carries the fixed part of its message.
\<close>

datatype error =
    ValueError string
  | TypeError
  | NameError string
  | IndexError
  | AttributeError
  | ZeroDivisionError
  | ProgrammingError
  | NotImplementedError
  | Exception string

text \<open>
  Floating-point numbers are modelled as reals: comparisons and the arithmetic of the
  wrapper are exact in the model. Python integers are unbounded, hence \<open>int\<close>.
\<close>

text \<open>
  The arguments \<^verbatim>\<open>ra\<close> and \<^verbatim>\<open>dec\<close> of \<^verbatim>\<open>ang2ipix\<close> default to \<^verbatim>\<open>None\<close> and
  may be a number or a sequence of numbers (the code tests
  \<^verbatim>\<open>isinstance(ra, collections.abc.Iterable)\<close>).
\<close>

datatype angle_arg = ANone | AScalar real | ASeq "real list"

section \<open>The native kernel and the helper module, as parameters\<close>

text \<open>
  The functions of \<^verbatim>\<open>_q3c_wrapper\<close> (the C extension) and
  \<^verbatim>\<open>utilities._normalize_ang\<close> are imported by \<^verbatim>\<open>qlsc_base.py\<close> but their
  code is not part of the sources. They are parameters of the model: one record field
  per imported function, with the argument order of the call sites. \<open>'h\<close> is the
  type of the opaque handle \<^verbatim>\<open>hprm\<close>. \<open>k_ang2ipix_seq\<close> stands for what the
  wrapper does when \<^verbatim>\<open>ang2ipix\<close> hands it two sequences (line 128 with list
  arguments).
\<close>

record 'h kernel =
  k_init_q3c :: "int \<Rightarrow> 'h option"
  k_ang2ipix :: "'h \<Rightarrow> real \<Rightarrow> real \<Rightarrow> int"
  k_ang2ipix_seq :: "'h \<Rightarrow> real list \<Rightarrow> real list \<Rightarrow> error + int"
  k_ipix2ang :: "'h \<Rightarrow> int \<Rightarrow> real \<times> real"
  k_ipix2xy :: "'h \<Rightarrow> int \<Rightarrow> int \<times> real \<times> real"
  k_xy2ang :: "real \<Rightarrow> real \<Rightarrow> int \<Rightarrow> real \<times> real"
  k_facenum :: "'h \<Rightarrow> real \<Rightarrow> real \<Rightarrow> int"
  k_nside :: "'h \<Rightarrow> int"
  k_radial_query_it :: "'h \<Rightarrow> real \<Rightarrow> real \<Rightarrow> real \<Rightarrow> nat \<Rightarrow> nat \<Rightarrow> int"
  k_sindist :: "real \<Rightarrow> real \<Rightarrow> real \<Rightarrow> real \<Rightarrow> real"
  normalize_ang :: "real \<times> real \<Rightarrow> real \<times> real"

section \<open>class QLSC\<close>

record 'h QLSC =
  bin_level :: int
  hprm :: 'h

text \<open>
  \<^verbatim>\<open>QLSC.__init__\<close> (lines 56-84): \<^verbatim>\<open>nside = int(pow(2, bin_level))\<close> is exact
  for \<open>0 \<le> bin_level \<le> 30\<close>.
\<close>

definition QLSC_init :: "'h kernel \<Rightarrow> int \<Rightarrow> error + 'h QLSC" where
  "QLSC_init K lvl =
     (if \<not> (0 \<le> lvl \<and> lvl \<le> 30)
      then Inl (ValueError ''The value for bin_level must be an integer on [0,30]'')
      else (case k_init_q3c K (2 ^ nat lvl) of
              None \<Rightarrow> Inl (Exception ''Internal Q3C data structure could not be created.'')
            | Some h \<Rightarrow> Inr \<lparr>bin_level = lvl, hprm = h\<rparr>))"

text \<open>The properties \<^verbatim>\<open>nside\<close> (line 235) and \<^verbatim>\<open>nbins\<close> (line 242:
  \<^verbatim>\<open>int(pow(self.nside,2)) * 6\<close>, exact for the powers of two the constructor
  passes to the kernel).\<close>

definition nside :: "'h kernel \<Rightarrow> 'h QLSC \<Rightarrow> int" where
  "nside K q = k_nside K (hprm q)"

definition nbins :: "'h kernel \<Rightarrow> 'h QLSC \<Rightarrow> int" where
  "nbins K q = (nside K q)\<^sup>2 * 6"

subsection \<open>ipixcenter (lines 300-311)\<close>

text \<open>
  Line 311 is
  \<^verbatim>\<open>( ang2ipix(hprm, ra, dec) >> (2*depth) << (2*depth) ) + (1 << (2 * (depth-1))) - 1\<close>.
  \<open>center_shift depth v\<close> is that expression with \<open>v\<close> for the kernel's pixel id.
  On Python's unbounded integers \<^verbatim>\<open>>>\<close> is \<open>drop_bit\<close> (floor division by a power
  of two) and \<^verbatim>\<open><<\<close> is \<open>push_bit\<close>; the shift amounts are non-negative once the
  guard of line 309 has passed.
\<close>

definition center_shift :: "int \<Rightarrow> int \<Rightarrow> int" where
  "center_shift depth v =
     push_bit (nat (2 * depth)) (drop_bit (nat (2 * depth)) v)
       + push_bit (nat (2 * (depth - 1))) 1 - 1"

definition ipixcenter :: "'h kernel \<Rightarrow> 'h QLSC \<Rightarrow> real \<Rightarrow> real \<Rightarrow> int \<Rightarrow> error + int" where
  "ipixcenter K q ra dec depth =
     (if \<not> (1 \<le> depth \<and> depth \<le> 30)
      then Inl (ValueError ''The depth provided is out of the range 1-30'')
      else Inr (center_shift depth (k_ang2ipix K (hprm q) ra dec)))"

subsection \<open>ang2ipix (lines 89-133)\<close>

text \<open>Python's \<^verbatim>\<open>min\<close> and \<^verbatim>\<open>max\<close> of a list raise ValueError on the empty list.\<close>

fun py_min :: "real list \<Rightarrow> error + real" where
  "py_min [] = Inl (ValueError ''min() arg is an empty sequence'')"
| "py_min (x # xs) = Inr (fold min xs x)"

fun py_max :: "real list \<Rightarrow> error + real" where
  "py_max [] = Inl (ValueError ''max() arg is an empty sequence'')"
| "py_max (x # xs) = Inr (fold max xs x)"

text \<open>\<^verbatim>\<open>min(xs) >= lo and max(xs) <= hi\<close>, evaluated left to right with the
  short circuit of \<^verbatim>\<open>and\<close> (lines 115 and 117).\<close>

definition seq_in_range :: "real \<Rightarrow> real \<Rightarrow> real list \<Rightarrow> error + bool" where
  "seq_in_range lo hi xs =
     (case py_min xs of
        Inl e \<Rightarrow> Inl e
      | Inr m \<Rightarrow>
          if \<not> lo \<le> m then Inr False
          else (case py_max xs of Inl e \<Rightarrow> Inl e | Inr M \<Rightarrow> Inr (M \<le> hi)))"

text \<open>
  The branches follow the source. With \<^verbatim>\<open>points\<close> given, \<^verbatim>\<open>ra\<close> and \<^verbatim>\<open>dec\<close>
  are \<^verbatim>\<open>None\<close> after line 110, \<^verbatim>\<open>None\<close> is not iterable, and line 121 compares
  \<^verbatim>\<open>-90 <= None\<close>, a TypeError in Python 3: the vectorised return of line 132 is
  never reached, so the result is a single pixel id. A sequence for one of
  \<^verbatim>\<open>ra\<close>, \<^verbatim>\<open>dec\<close> and a number for the other is a TypeError as well
  (\<^verbatim>\<open>min\<close> of a float, or a list compared with a number).
\<close>

definition ang2ipix ::
  "'h kernel \<Rightarrow> 'h QLSC \<Rightarrow> angle_arg \<Rightarrow> angle_arg \<Rightarrow> (real \<times> real) list option \<Rightarrow> error + int" where
  "ang2ipix K q ra dec points =
     (if points = None \<and> (ra = ANone \<or> dec = ANone)
      then Inl (ValueError ''Values for ra,dec must be specified.'')
      else if points \<noteq> None \<and> (ra \<noteq> ANone \<or> dec \<noteq> ANone)
      then Inl (ValueError ''Only specify ra,dec OR points.'')
      else (case ra of
              ASeq ras \<Rightarrow>
                (case dec of
                   ASeq decs \<Rightarrow>
                     (case seq_in_range (- 90) 90 decs of
                        Inl e \<Rightarrow> Inl e
                      | Inr False \<Rightarrow> Inl (ValueError ''ang2ipix: dec out of range [-90,90]'')
                      | Inr True \<Rightarrow>
                          (case seq_in_range 0 360 ras of
                             Inl e \<Rightarrow> Inl e
                           | Inr False \<Rightarrow> Inl (ValueError ''ang2ipix: ra out of range [0,360]'')
                           | Inr True \<Rightarrow> k_ang2ipix_seq K (hprm q) ras decs))
                 | _ \<Rightarrow> Inl TypeError)
            | AScalar r \<Rightarrow>
                (case dec of
                   AScalar d \<Rightarrow>
                     (if \<not> ((- 90 \<le> d \<and> d \<le> 90) \<and> (0 \<le> r \<and> r \<le> 360))
                      then (case normalize_ang K (r, d) of
                              (r', d') \<Rightarrow> Inr (k_ang2ipix K (hprm q) r' d'))
                      else Inr (k_ang2ipix K (hprm q) r d))
                 | _ \<Rightarrow> Inl TypeError)
            | ANone \<Rightarrow> Inl TypeError))"

subsection \<open>ipix2ang (lines 154-168) and ipix2xy (lines 170-178)\<close>

text \<open>\<^verbatim>\<open>ipix\<close> is an \<open>int\<close>, so the \<^verbatim>\<open>isinstance(ipix, int)\<close> test of line 161
  passes; the bounds check of line 165 remains.\<close>

definition ipix2ang :: "'h kernel \<Rightarrow> 'h QLSC \<Rightarrow> int \<Rightarrow> error + real \<times> real" where
  "ipix2ang K q ipix =
     (if \<not> (0 \<le> ipix \<and> ipix < nbins K q)
      then Inl (ValueError ''The ipix number is out of bounds for this scheme'')
      else Inr (k_ipix2ang K (hprm q) ipix))"

text \<open>The body of \<^verbatim>\<open>ipix2xy\<close> is the single line
  \<^verbatim>\<open>return _q3c_wrapper.ipix2xy(self._hprm, ipix)\<close>.\<close>

definition ipix2xy :: "'h kernel \<Rightarrow> 'h QLSC \<Rightarrow> int \<Rightarrow> error + int \<times> real \<times> real" where
  "ipix2xy K q ipix = Inr (k_ipix2xy K (hprm q) ipix)"

subsection \<open>xy2ang (lines 180-218)\<close>

text \<open>The scalar form returns one pair, the \<^verbatim>\<open>points\<close> form an array with one row
  per point.\<close>

datatype ang_result = AngPair "real \<times> real" | AngArray "(real \<times> real) list"

text \<open>
  \<^verbatim>\<open>facenum\<close> is \<^verbatim>\<open>None\<close> or an \<open>int\<close> (so \<^verbatim>\<open>isinstance(facenum, int)\<close> holds),
  \<^verbatim>\<open>x\<close> and \<^verbatim>\<open>y\<close> are \<^verbatim>\<open>None\<close> or numbers. Line 207 is
  \<^verbatim>\<open>if not (-1 <= x <= 1) and not (-1 <= y <= 1)\<close>.
\<close>

definition xy2ang ::
  "'h kernel \<Rightarrow> int option \<Rightarrow> real option \<Rightarrow> real option \<Rightarrow> (real \<times> real) list option
     \<Rightarrow> error + ang_result" where
  "xy2ang K facenum x y points =
     (case facenum of
        None \<Rightarrow> Inl (ValueError ''The cube face number (facenum) must be provided.'')
      | Some f \<Rightarrow>
          if \<not> (0 \<le> f \<and> f \<le> 5)
          then Inl (ValueError ''Values of facenum must be an integer between 0 and 5'')
          else if x \<noteq> None \<and> y \<noteq> None \<and> points \<noteq> None
          then Inl (ValueError ''Specify only ra and dec, or points'')
          else if points = None \<and> (x = None \<or> y = None)
          then Inl (ValueError ''Values for x and y must be specified together; missing one'')
          else (case points of
                  None \<Rightarrow>
                    (case x of
                       None \<Rightarrow> Inl TypeError
                     | Some xv \<Rightarrow>
                         (case y of
                            None \<Rightarrow> Inl TypeError
                          | Some yv \<Rightarrow>
                              if \<not> (- 1 \<le> xv \<and> xv \<le> 1) \<and> \<not> (- 1 \<le> yv \<and> yv \<le> 1)
                              then Inl (ValueError ''Values of x and y must be in the range [-1,1].'')
                              else Inr (AngPair (k_xy2ang K xv yv f))))
                | Some ps \<Rightarrow> Inr (AngArray (map (\<lambda>(px, py). k_xy2ang K px py f) ps))))"

subsection \<open>face_number (lines 244-272)\<close>



subsection \<open>ipix2polygon (lines 313-370)\<close>

text \<open>
  \<^verbatim>\<open>d = 2/self.nside\<close>; the array \<^verbatim>\<open>polygon\<close> has five rows when
  \<^verbatim>\<open>duplicate_endpoint\<close> is true and four otherwise (lines 349-363); lines 367-368 are
  \<^verbatim>\<open>if duplicate_endpoint == True: polygon = polygon[:-1]\<close>; line 370 maps the rows
  through \<^verbatim>\<open>xy2ang\<close>.
\<close>

definition ipix2polygon :: "'h kernel \<Rightarrow> 'h QLSC \<Rightarrow> int option \<Rightarrow> bool \<Rightarrow> error + ang_result" where
  "ipix2polygon K q ipix duplicate_endpoint =
     (case ipix of
        None \<Rightarrow> Inl (ValueError ''An ipix value must be specified.'')
      | Some i \<Rightarrow>
          if \<not> (0 \<le> i \<and> i < nbins K q)
          then Inl (ValueError ''The ipix value given is out of the valid range for this scheme'')
          else if nside K q = 0 then Inl ZeroDivisionError
          else (case ipix2xy K q i of
                  Inl e \<Rightarrow> Inl e
                | Inr (facenum, x, y) \<Rightarrow>
                    (let d = 2 / real_of_int (nside K q);
                         polygon =
                           (if duplicate_endpoint
                            then [(x, y), (x + d, y), (x + d, y + d), (x, y + d), (x, y)]
                            else [(x, y), (x + d, y), (x + d, y + d), (x, y + d)]);
                         polygon' = (if duplicate_endpoint then butlast polygon else polygon)
                     in xy2ang K (Some facenum) None None (Some polygon'))))"

section \<open>class QLSCIndex\<close>

subsection \<open>The module's global names\<close>

text \<open>
  The names the module binds at import time (lines 2-29 and the two classes):
  line 13 is \<^verbatim>\<open>import numpy as np\<close>, which binds \<^verbatim>\<open>np\<close> and not
  \<^verbatim>\<open>numpy\<close>. \<^verbatim>\<open>astropy\<close> and \<^verbatim>\<open>pandas\<close> are bound only when installed, and
  neither binds \<^verbatim>\<open>numpy\<close> in this module. Reading a name that is not bound
  raises NameError.
\<close>

definition module_globals :: "string list" where
  "module_globals =
     [''os'', ''math'', ''pathlib'', ''sqlite3'', ''contextlib'', ''Iterable'', ''Tuple'',
      ''urlparse'', ''pow'', ''sin'', ''deg2rad'', ''collections'', ''np'',
      ''astropy_available'', ''pandas_available'', ''_q3c_wrapper'', ''radial_query_it'',
      ''sindist'', ''_normalize_ang'', ''QLSC'', ''QLSCIndex'']"

definition name_bound :: "string \<Rightarrow> bool" where
  "name_bound n = (n \<in> set module_globals)"

subsection \<open>The SQLite connection\<close>

text \<open>
  A connection holds the rows of the table \<^verbatim>\<open>qlsc_table\<close>: those already
  committed and those inserted in the transaction in flight (a \<^verbatim>\<open>SELECT\<close> on the
  same connection sees both, in insertion order). \<open>commit_log\<close> is instrumentation:
  one entry per call of \<^verbatim>\<open>commit\<close>, saying who called it and how many rows the
  table holds then. \<^verbatim>\<open>BatchCommit\<close> is the explicit
  \<^verbatim>\<open>self.data_source.commit()\<close> inside the loops of \<^verbatim>\<open>add_points\<close>,
  \<^verbatim>\<open>ExitCommit\<close> the commit of \<^verbatim>\<open>with self.data_source:\<close> on leaving the block
  without an exception (with one, it rolls back).
\<close>

datatype commit_origin = BatchCommit | ExitCommit

record sqlite_db =
  committed :: "(real \<times> real) list"
  pending :: "(real \<times> real) list"
  commit_log :: "(commit_origin \<times> nat) list"
  closed :: bool

definition empty_db :: sqlite_db where
  "empty_db = \<lparr>committed = [], pending = [], commit_log = [], closed = False\<rparr>"

definition select_rows :: "sqlite_db \<Rightarrow> (real \<times> real) list" where
  "select_rows db = committed db @ pending db"

definition execute_insert :: "sqlite_db \<Rightarrow> real \<times> real \<Rightarrow> sqlite_db" where
  "execute_insert db row = db\<lparr>pending := pending db @ [row]\<rparr>"

definition commit :: "commit_origin \<Rightarrow> sqlite_db \<Rightarrow> sqlite_db" where
  "commit origin db =
     db\<lparr>committed := committed db @ pending db,
        pending := [],
        commit_log := commit_log db @ [(origin, length (committed db @ pending db))]\<rparr>"

definition rollback :: "sqlite_db \<Rightarrow> sqlite_db" where
  "rollback db = db\<lparr>pending := []\<rparr>"

datatype data_source = Connection sqlite_db | OtherSource

text \<open>The fields \<^verbatim>\<open>ra_key\<close>, \<^verbatim>\<open>dec_key\<close> and \<^verbatim>\<open>database_tablename\<close> keep the
  values \<^verbatim>\<open>__init__\<close> gives them and only name the one table and its two columns.\<close>

record 'h QLSCIndex =
  qlsc :: "'h QLSC"
  data_source :: data_source

definition QLSCIndex_init :: "'h QLSC \<Rightarrow> 'h QLSCIndex" where
  "QLSCIndex_init q = \<lparr>qlsc = q, data_source = Connection empty_db\<rparr>"

subsection \<open>The setter of data_source (lines 394-449)\<close>

datatype new_source =
    NSNone
  | NSConnection sqlite_db
  | NSStr string
  | NSPath string
  | NSNdarray
  | NSTable
  | NSDataFrame

text \<open>What the setter reads from outside the object: the file system, SQLite, the URL
  parser and the two availability flags of lines 15-25.\<close>

record os_env =
  path_exists :: "string \<Rightarrow> bool"
  sqlite3_connect :: "string \<Rightarrow> sqlite_db option"
  urlparse_path :: "string \<Rightarrow> string"
  astropy_available :: bool
  pandas_available :: bool

definition close_source :: "data_source \<Rightarrow> error + data_source" where
  "close_source src =
     (case src of
        Connection db \<Rightarrow> Inr (Connection (db\<lparr>closed := True\<rparr>))
      | OtherSource \<Rightarrow> Inl AttributeError)"

text \<open>The branch for a string (lines 413-439). \<^verbatim>\<open>pathlib.Path\<close> has no
  \<^verbatim>\<open>startswith\<close>, so a path object fails at line 416. For a new database line 439
  creates the (empty) table, which leaves the rows of the model as they are.\<close>

definition set_from_string :: "os_env \<Rightarrow> 'h QLSCIndex \<Rightarrow> string \<Rightarrow> error option \<times> 'h QLSCIndex" where
  "set_from_string env idx new_value =
     (if new_value = '':memory:''
      then (case sqlite3_connect env new_value of
              None \<Rightarrow> (Some (Exception ''sqlite3.OperationalError''), idx)
            | Some db \<Rightarrow> (None, idx\<lparr>data_source := Connection db\<rparr>))
      else (let is_uri = (take 5 new_value = ''file:'');
                filepath = (if is_uri then urlparse_path env new_value else new_value);
                new_database = (\<not> path_exists env filepath)
            in case sqlite3_connect env new_value of
                 None \<Rightarrow>
                   (if new_database
                    then (Some (Exception ''Unable to create database at specified path.''), idx)
                    else (Some (Exception ''Found file at path, but unable to open.''), idx))
               | Some db \<Rightarrow> (None, idx\<lparr>data_source := Connection db\<rparr>)))"

text \<open>
  The chain of lines 441-449 once line 413 has failed. Its first test evaluates
  \<^verbatim>\<open>numpy.ndarray\<close>, so the name \<^verbatim>\<open>numpy\<close> is read before any later
  \<^verbatim>\<open>elif\<close> is tried.
\<close>

definition set_from_other :: "os_env \<Rightarrow> 'h QLSCIndex \<Rightarrow> new_source \<Rightarrow> error option \<times> 'h QLSCIndex" where
  "set_from_other env idx new_value =
     (if \<not> name_bound ''numpy'' then (Some (NameError ''numpy''), idx)
      else if new_value = NSNdarray then (None, idx\<lparr>data_source := OtherSource\<rparr>)
      else if astropy_available env \<and> new_value = NSTable
      then (Some NotImplementedError, idx\<lparr>data_source := OtherSource\<rparr>)
      else if pandas_available env \<and> new_value = NSDataFrame
      then (Some NotImplementedError, idx)
      else if new_value = NSNone
      then (Some (ValueError ''The data source cannot be set to None.''), idx)
      else (None, idx))"

text \<open>The result is the exception raised, if any, and the object afterwards.\<close>

definition set_data_source :: "os_env \<Rightarrow> 'h QLSCIndex \<Rightarrow> new_source \<Rightarrow> error option \<times> 'h QLSCIndex" where
  "set_data_source env idx new_value =
     (case new_value of
        NSConnection c \<Rightarrow>
          (case close_source (data_source idx) of
             Inl e \<Rightarrow> (Some e, idx)
           | Inr src \<Rightarrow> set_from_other env (idx\<lparr>data_source := src\<rparr>) new_value)
      | NSStr s \<Rightarrow> set_from_string env idx s
      | NSPath s \<Rightarrow> (Some AttributeError, idx)
      | _ \<Rightarrow> set_from_other env idx new_value)"

subsection \<open>add_point, add_points, number_of_points (lines 479-535)\<close>

definition add_point :: "'h QLSCIndex \<Rightarrow> real \<Rightarrow> real \<Rightarrow> error option \<times> 'h QLSCIndex" where
  "add_point idx ra dec =
     (case data_source idx of
        OtherSource \<Rightarrow> (Some AttributeError, idx)
      | Connection db \<Rightarrow>
          if closed db then (Some ProgrammingError, idx)
          else (None, idx\<lparr>data_source := Connection (commit ExitCommit (execute_insert db (ra, dec)))\<rparr>))"

text \<open>A list argument is true when it is neither \<^verbatim>\<open>None\<close> nor empty
  (\<^verbatim>\<open>any([ra,dec,points])\<close>, \<^verbatim>\<open>all([ra,dec,points])\<close>, \<^verbatim>\<open>if ra:\<close>).\<close>

definition truthy_list :: "'a list option \<Rightarrow> bool" where
  "truthy_list v = (case v of None \<Rightarrow> False | Some xs \<Rightarrow> xs \<noteq> [])"

text \<open>
  The loop of lines 517-522 over \<^verbatim>\<open>points\<close>: insert the row, add one to
  \<^verbatim>\<open>count\<close>, and when \<^verbatim>\<open>count > 50000\<close> commit and reset \<^verbatim>\<open>count\<close> to zero.
  The result is the final \<^verbatim>\<open>count\<close> and the connection.
\<close>

fun insert_pairs :: "(real \<times> real) list \<Rightarrow> nat \<Rightarrow> sqlite_db \<Rightarrow> nat \<times> sqlite_db" where
  "insert_pairs [] count db = (count, db)"
| "insert_pairs (p # ps) count db =
     (if count + 1 > 50000
      then insert_pairs ps 0 (commit BatchCommit (execute_insert db p))
      else insert_pairs ps (count + 1) (execute_insert db p))"

text \<open>The loop of lines 510-515 over \<^verbatim>\<open>range(len(ra))\<close>: \<^verbatim>\<open>dec[i]\<close> raises
  IndexError when \<^verbatim>\<open>dec\<close> is shorter than \<^verbatim>\<open>ra\<close>.\<close>

fun insert_columns :: "real list \<Rightarrow> real list \<Rightarrow> nat \<Rightarrow> sqlite_db \<Rightarrow> error option \<times> sqlite_db" where
  "insert_columns [] decs count db = (None, db)"
| "insert_columns (r # rs) [] count db = (Some IndexError, db)"
| "insert_columns (r # rs) (d # ds) count db =
     (if count + 1 > 50000
      then insert_columns rs ds 0 (commit BatchCommit (execute_insert db (r, d)))
      else insert_columns rs ds (count + 1) (execute_insert db (r, d)))"

definition add_points ::
  "'h QLSCIndex \<Rightarrow> real list option \<Rightarrow> real list option \<Rightarrow> (real \<times> real) list option
     \<Rightarrow> error option \<times> 'h QLSCIndex" where
  "add_points idx ra dec points =
     (if \<not> (truthy_list ra \<or> truthy_list dec \<or> truthy_list points)
      then (Some (ValueError ''ra,dec OR points must be specified.''), idx)
      else if truthy_list ra \<and> truthy_list dec \<and> truthy_list points
      then (Some (ValueError ''Only ra,dec OR points can be specified.''), idx)
      else if points = None \<and> \<not> (truthy_list ra \<and> truthy_list dec)
      then (Some (ValueError ''If ra or dec is given, then other parameter must also be provided.''), idx)
      else (case data_source idx of
              OtherSource \<Rightarrow> (Some AttributeError, idx)
            | Connection db \<Rightarrow>
                if closed db then (Some ProgrammingError, idx)
                else if truthy_list ra
                then (case (ra, dec) of
                        (Some ras, Some decs) \<Rightarrow>
                          (case insert_columns ras decs 0 db of
                             (Some e, db') \<Rightarrow> (Some e, idx\<lparr>data_source := Connection (rollback db')\<rparr>)
                           | (None, db') \<Rightarrow>
                               (None, idx\<lparr>data_source := Connection (commit ExitCommit db')\<rparr>))
                      | _ \<Rightarrow> (Some TypeError, idx\<lparr>data_source := Connection (rollback db)\<rparr>))
                else (case points of
                        None \<Rightarrow> (Some TypeError, idx\<lparr>data_source := Connection (rollback db)\<rparr>)
                      | Some ps \<Rightarrow>
                          (case insert_pairs ps 0 db of
                             (count, db') \<Rightarrow>
                               (None, idx\<lparr>data_source := Connection (commit ExitCommit db')\<rparr>)))))"

definition number_of_points :: "'h QLSCIndex \<Rightarrow> error + nat" where
  "number_of_points idx =
     (case data_source idx of
        Connection db \<Rightarrow> if closed db then Inl ProgrammingError else Inr (length (select_rows db))
      | OtherSource \<Rightarrow> Inl NotImplementedError)"

subsection \<open>radial_query and _radial_match (lines 538-690)\<close>

definition deg2rad :: "real \<Rightarrow> real" where
  "deg2rad x = x * pi / 180"

text \<open>
  One disjunct of lines 590-689: the pair of boundaries \<open>2 * i\<close> and \<open>2 * i + 1\<close> of
  a zone, \<^verbatim>\<open>ipix >= radial_query_it(.., 2*i, zone) and
  ipix < radial_query_it(.., 2*i+1, zone)\<close>.
\<close>

definition in_interval ::
  "'h kernel \<Rightarrow> 'h \<Rightarrow> real \<Rightarrow> real \<Rightarrow> real \<Rightarrow> nat \<Rightarrow> int \<Rightarrow> nat \<Rightarrow> bool" where
  "in_interval K h center_ra center_dec radius zone ipix i =
     (ipix \<ge> k_radial_query_it K h center_ra center_dec radius (2 * i) zone
      \<and> ipix < k_radial_query_it K h center_ra center_dec radius (2 * i + 1) zone)"

text \<open>
  The return expression of \<^verbatim>\<open>_radial_match\<close>: the fifty disjuncts of zone 1 (lines
  590-639, boundaries 0 to 99), then the fifty of zone 0 (lines 640-689), and the
  conjunct of line 690,
  \<^verbatim>\<open>sindist(ra,dec,center_ra,center_dec) < pow(sin(deg2rad(radius)/2.), 2)\<close>.
\<close>

definition radial_match ::
  "'h kernel \<Rightarrow> 'h QLSCIndex \<Rightarrow> real \<Rightarrow> real \<Rightarrow> real \<Rightarrow> real \<Rightarrow> real \<Rightarrow> error + bool" where
  "radial_match K idx ra dec center_ra center_dec radius =
     (case ang2ipix K (qlsc idx) (AScalar ra) (AScalar dec) None of
        Inl e \<Rightarrow> Inl e
      | Inr ipix \<Rightarrow>
          (let h = hprm (qlsc idx) in
           Inr ((list_ex (in_interval K h center_ra center_dec radius 1 ipix) [0..<50]
                 \<or> list_ex (in_interval K h center_ra center_dec radius 0 ipix) [0..<50])
                \<and> k_sindist K ra dec center_ra center_dec < (sin (deg2rad radius / 2))\<^sup>2)))"

text \<open>The loop of lines 552-554 over the rows of the \<^verbatim>\<open>SELECT\<close>, with the list
  \<^verbatim>\<open>matches\<close> as accumulator.\<close>

fun scan_rows ::
  "'h kernel \<Rightarrow> 'h QLSCIndex \<Rightarrow> real \<Rightarrow> real \<Rightarrow> real \<Rightarrow> (real \<times> real) list
     \<Rightarrow> (real \<times> real) list \<Rightarrow> error + (real \<times> real) list" where
  "scan_rows K idx center_ra center_dec radius [] matches = Inr matches"
| "scan_rows K idx center_ra center_dec radius ((ra, dec) # rows) matches =
     (case radial_match K idx ra dec center_ra center_dec radius of
        Inl e \<Rightarrow> Inl e
      | Inr True \<Rightarrow> scan_rows K idx center_ra center_dec radius rows (matches @ [(ra, dec)])
      | Inr False \<Rightarrow> scan_rows K idx center_ra center_dec radius rows matches)"

text \<open>For a data source that is not a connection, line 556 evaluates
  \<^verbatim>\<open>numpy.ndarray\<close>.\<close>

definition radial_query ::
  "'h kernel \<Rightarrow> 'h QLSCIndex \<Rightarrow> real \<Rightarrow> real \<Rightarrow> real \<Rightarrow> error + (real \<times> real) list" where
  "radial_query K idx center_ra center_dec radius =
     (case data_source idx of
        Connection db \<Rightarrow>
          if closed db then Inl ProgrammingError
          else scan_rows K idx center_ra center_dec radius (select_rows db) []
      | OtherSource \<Rightarrow> Inl (NameError ''numpy''))"

subsection \<open>The acceptance test of section 4.3 of the specification\<close>

text \<open>
  In the words of the specification, to compare with \<^verbatim>\<open>_radial_match\<close>: a point is
  accepted when its pixel id lies in the union of the fifty half-open intervals
  \<open>[lo, hi)\<close> of zone 1 and the fifty of zone 0 (interval \<open>i\<close> of a zone has the
  kernel's boundaries \<open>2 * i\<close> and \<open>2 * i + 1\<close>), and the kernel's distance metric
  between the point and the centre is strictly less than the squared sine of half the
  radius in radians.
\<close>

definition spec_accepts ::
  "'h kernel \<Rightarrow> 'h QLSC \<Rightarrow> real \<Rightarrow> real \<Rightarrow> real \<Rightarrow> real \<times> real \<Rightarrow> bool" where
  "spec_accepts K q center_ra center_dec radius p =
     (case p of
        (ra, dec) \<Rightarrow>
          (\<exists>ipix. ang2ipix K q (AScalar ra) (AScalar dec) None = Inr ipix
             \<and> ipix \<in> (\<Union>i\<in>{..<50}.
                          {k_radial_query_it K (hprm q) center_ra center_dec radius (2 * i) 1
                           ..< k_radial_query_it K (hprm q) center_ra center_dec radius (2 * i + 1) 1})
                      \<union> (\<Union>i\<in>{..<50}.
                          {k_radial_query_it K (hprm q) center_ra center_dec radius (2 * i) 0
                           ..< k_radial_query_it K (hprm q) center_ra center_dec radius (2 * i + 1) 0}))
          \<and> k_sindist K ra dec center_ra center_dec < (sin (radius * pi / 180 / 2))\<^sup>2)"

section \<open>Reading results\<close>

definition raises_ValueError :: "error + 'a \<Rightarrow> bool" where
  "raises_ValueError r = (case r of Inl (ValueError msg) \<Rightarrow> True | _ \<Rightarrow> False)"

section \<open>The kernel's contract\<close>

text \<open>
  Modelled from the spec: the C kernel behind \<^verbatim>\<open>_q3c_wrapper\<close> is not part of the
  sources. Sections 3, 4.1 and 6 of the specification give its contract: the angle the
  kernel returns for a pixel is a point (\<open>ra\<close> in [0,360], \<open>dec\<close> in [-90,90]), and
  the kernel maps that angle back to the same pixel, for every pixel id in
  \<open>[0, nbins)\<close> with \<open>nbins = 6 * nside\<^sup>2\<close>.
\<close>

definition kernel_roundtrip :: "'h kernel \<Rightarrow> 'h \<Rightarrow> bool" where
  "kernel_roundtrip K h =
     (\<forall>ipix. 0 \<le> ipix \<and> ipix < (k_nside K h)\<^sup>2 * 6 \<longrightarrow>
        (case k_ipix2ang K h ipix of
           (ra, dec) \<Rightarrow>
             0 \<le> ra \<and> ra \<le> 360 \<and> - 90 \<le> dec \<and> dec \<le> 90 \<and> k_ang2ipix K h ra dec = ipix))"


section \<open>A small kernel for concrete runs\<close>

text \<open>
  A six-pixel scheme (\<open>nside = 1\<close>) whose pixels are the six bands of 60 degrees of right
  ascension; pixel \<open>i\<close> is represented by the angle \<open>(60 i + 30, 0)\<close> and lies on
  face \<open>i\<close>. The cover of every disc is the single interval \<open>[0, 3)\<close> in zone 1, and
  the distance metric is the difference of the right ascensions as a fraction of a
  turn. Normalisation wraps \<open>ra\<close> by one turn and clamps \<open>dec\<close>.
\<close>

definition toy_ang2ipix :: "real \<Rightarrow> int" where
  "toy_ang2ipix ra =
     (if ra < 60 then 0 else if ra < 120 then 1 else if ra < 180 then 2
      else if ra < 240 then 3 else if ra < 300 then 4 else 5)"

definition toy_normalize :: "real \<times> real \<Rightarrow> real \<times> real" where
  "toy_normalize p =
     (case p of
        (ra, dec) \<Rightarrow>
          (if ra < 0 then ra + 360 else if 360 < ra then ra - 360 else ra,
           if 90 < dec then 90 else if dec < - 90 then - 90 else dec))"

definition toy_kernel :: "unit kernel" where
  "toy_kernel =
     \<lparr>k_init_q3c = (\<lambda>n. Some ()),
      k_ang2ipix = (\<lambda>h ra dec. toy_ang2ipix ra),
      k_ang2ipix_seq = (\<lambda>h ras decs. Inl TypeError),
      k_ipix2ang = (\<lambda>h i. (60 * real_of_int i + 30, 0)),
      k_ipix2xy = (\<lambda>h i. (i, - 1, - 1)),
      k_xy2ang = (\<lambda>x y f. (60 * real_of_int f + 30 + 30 * x, 45 * y)),
      k_facenum = (\<lambda>h ra dec. toy_ang2ipix ra),
      k_nside = (\<lambda>h. 1),
      k_radial_query_it = (\<lambda>h cra cdec r i zone. if zone = 1 \<and> i = 1 then 3 else 0),
      k_sindist = (\<lambda>ra dec cra cdec. \<bar>ra - cra\<bar> / 360),
      normalize_ang = toy_normalize\<rparr>"

definition toy_qlsc :: "unit QLSC" where
  "toy_qlsc = \<lparr>bin_level = 0, hprm = ()\<rparr>"

definition toy_index :: "unit QLSCIndex" where
  "toy_index =
     \<lparr>qlsc = toy_qlsc,
      data_source =
        Connection (empty_db\<lparr>committed := [(170, 0), (20, 0), (200, 0), (100, 0)]\<rparr>)\<rparr>"

definition toy_env :: os_env where
  "toy_env =
     \<lparr>path_exists = (\<lambda>p. False),
      sqlite3_connect = (\<lambda>p. Some empty_db),
      urlparse_path = (\<lambda>p. drop 5 p),
      astropy_available = False,
      pandas_available = False\<rparr>"

section \<open>Properties\<close>

subsection \<open>The six-pixel scheme\<close>

lemma toy_qlsc_constructed: "QLSC_init toy_kernel 0 = Inr toy_qlsc"
  by (simp add: QLSC_init_def toy_kernel_def toy_qlsc_def)

lemma toy_nbins: "nbins toy_kernel toy_qlsc = 6"
  by (simp add: nbins_def nside_def toy_kernel_def)

subsection \<open>Arithmetic of the pixel centre\<close>

lemma center_shift_arith:
  fixes v :: int
  assumes "1 \<le> depth"
  shows "center_shift depth v = (v div 4 ^ nat depth) * 4 ^ nat depth + (4 ^ nat (depth - 1) - 1)"
proof -
  have a: "(2::int) ^ nat (2 * depth) = 4 ^ nat depth"
    using assms by (simp add: nat_mult_distrib power_mult)
  have "nat (2 * (depth - 1)) = 2 * nat (depth - 1)"
    using assms by simp
  then have b: "(2::int) ^ nat (2 * (depth - 1)) = 4 ^ nat (depth - 1)"
    by (simp add: power_mult)
  show ?thesis
    unfolding center_shift_def push_bit_eq_mult drop_bit_eq_div a b by simp
qed

lemma center_offset_bounds:
  assumes "1 \<le> depth"
  shows "(0::int) \<le> 4 ^ nat (depth - 1) - 1" and "(4::int) ^ nat (depth - 1) - 1 < 4 ^ nat depth"
proof -
  show "(0::int) \<le> 4 ^ nat (depth - 1) - 1" by simp
  have "nat depth = Suc (nat (depth - 1))" using assms by simp
  then have "(4::int) ^ nat depth = 4 * 4 ^ nat (depth - 1)" by simp
  moreover have "(0::int) < 4 ^ nat (depth - 1)" by simp
  ultimately show "(4::int) ^ nat (depth - 1) - 1 < 4 ^ nat depth" by linarith
qed

lemma center_shift_idem:
  assumes "1 \<le> depth"
  shows "center_shift depth (center_shift depth v) = center_shift depth v"
proof -
  let ?M = "(4::int) ^ nat depth"
  let ?c = "(4::int) ^ nat (depth - 1) - 1"
  have pos: "0 < ?M" by simp
  have "(v div ?M * ?M + ?c) div ?M = v div ?M"
    using center_offset_bounds [OF assms] pos by simp
  then show ?thesis
    by (simp add: center_shift_arith [OF assms])
qed

subsection \<open>ipixcenter\<close>

text \<open>
  Claim C8. \<^verbatim>\<open>ipixcenter\<close> raises a ValueError (the specification's DomainError) for
  every depth outside [1,30]. For a depth in [1,30] it returns \<open>center_shift depth\<close> of
  the kernel's pixel id (clear the low \<open>2 * depth\<close> bits, add
  \<open>(1 << (2 * (depth - 1))) - 1\<close>), and that transformation is idempotent: applied to
  its own output at the same depth it returns the same value.
\<close>

theorem ipixcenter_depth_guard_and_idempotent:
  "(depth < 1 \<or> 30 < depth \<longrightarrow>
      ipixcenter K q ra dec depth = Inl (ValueError ''The depth provided is out of the range 1-30''))
   \<and> (1 \<le> depth \<and> depth \<le> 30 \<longrightarrow>
        ipixcenter K q ra dec depth = Inr (center_shift depth (k_ang2ipix K (hprm q) ra dec))
        \<and> center_shift depth (center_shift depth v) = center_shift depth v)"
  using center_shift_idem [of depth v] by (auto simp: ipixcenter_def)

theorem ipixcenter_witness:
  "ipixcenter toy_kernel toy_qlsc 130 0 0 = Inl (ValueError ''The depth provided is out of the range 1-30'')
   \<and> ipixcenter toy_kernel toy_qlsc 130 0 2 = Inr 3
   \<and> center_shift 2 (center_shift 2 27) = center_shift 2 27
   \<and> center_shift 2 27 = 19"
  using ipixcenter_depth_guard_and_idempotent [of 0 toy_kernel toy_qlsc 130 0 27]
    ipixcenter_depth_guard_and_idempotent [of 2 toy_kernel toy_qlsc 130 0 27]
  by (simp add: center_shift_def toy_kernel_def toy_qlsc_def toy_ang2ipix_def)

subsection \<open>xy2ang\<close>

text \<open>
  Claim C5 says that a scalar call of \<^verbatim>\<open>xy2ang\<close> raises as soon as one of \<open>x\<close>,
  \<open>y\<close> is outside [-1,1]. Line 207 joins the two tests with \<^verbatim>\<open>and\<close>, so the
  call raises only when both are outside: with \<open>x = 2\<close> and \<open>y = 0\<close> on face 0 the
  pair is handed to the kernel and no exception is raised.
\<close>

theorem xy2ang_one_coordinate_out_of_range:
  "xy2ang K (Some 0) (Some 2) (Some 0) None = Inr (AngPair (k_xy2ang K 2 0 0))"
  by (simp add: xy2ang_def)

subsection \<open>ipix2xy\<close>

text \<open>
  Claim C6 says that \<^verbatim>\<open>ipix2xy\<close> checks the bounds of \<^verbatim>\<open>ipix\<close> as
  \<^verbatim>\<open>ipix2ang\<close> does. It has no check: the pixel id \<open>-1\<close> is handed to the kernel
  and the kernel's answer is returned, while \<^verbatim>\<open>ipix2ang\<close> raises a ValueError for
  the same pixel id.
\<close>

theorem ipix2xy_no_bounds_check:
  "ipix2xy K q (- 1) = Inr (k_ipix2xy K (hprm q) (- 1))
   \<and> ipix2ang K q (- 1) = Inl (ValueError ''The ipix number is out of bounds for this scheme'')"
  by (simp add: ipix2xy_def ipix2ang_def)

subsection \<open>The setter of data_source\<close>

text \<open>
  Claim C7 says that assigning \<^verbatim>\<open>None\<close> raises a ValueError (the specification's
  ConfigurationError) and leaves the data source unchanged. The data source is left
  unchanged, but the exception is a NameError: the test
  \<^verbatim>\<open>isinstance(new_value, numpy.ndarray)\<close> of line 441 reads the unbound name
  \<^verbatim>\<open>numpy\<close> before the branch \<^verbatim>\<open>elif new_value is None\<close> of line 448 is tried.
\<close>

theorem set_data_source_None:
  "set_data_source env idx NSNone = (Some (NameError ''numpy''), idx)"
  by (simp add: set_data_source_def set_from_other_def name_bound_def module_globals_def)

subsection \<open>ipix2polygon\<close>

text \<open>
  Claim C9 says that \<^verbatim>\<open>ipix2polygon\<close> returns five vertices when
  \<^verbatim>\<open>duplicate_endpoint\<close> is true. Lines 367-368 drop the last row of the array when
  \<^verbatim>\<open>duplicate_endpoint\<close> is true, so the result is the one of
  \<^verbatim>\<open>duplicate_endpoint = False\<close>, four vertices, for every pixel id; on the
  six-pixel scheme pixel 0 gives the four corners listed.
\<close>

theorem ipix2polygon_duplicate_endpoint:
  "ipix2polygon K q ipix True = ipix2polygon K q ipix False
   \<and> ipix2polygon toy_kernel toy_qlsc (Some 0) True
       = Inr (AngArray [(0, - 45), (60, - 45), (60, 45), (0, 45)])"
  by (simp add: ipix2polygon_def ipix2xy_def xy2ang_def nbins_def nside_def toy_kernel_def toy_qlsc_def
      split: option.splits prod.splits)

subsection \<open>face_number\<close>





subsection \<open>ang2ipix\<close>

lemma fold_min_ge: "lo \<le> fold min xs (x::real) \<longleftrightarrow> lo \<le> x \<and> (\<forall>y\<in>set xs. lo \<le> y)"
  by (induction xs arbitrary: x) auto

lemma fold_max_le: "fold max xs (x::real) \<le> hi \<longleftrightarrow> x \<le> hi \<and> (\<forall>y\<in>set xs. y \<le> hi)"
  by (induction xs arbitrary: x) auto

lemma seq_in_range_Nil: "seq_in_range lo hi [] = Inl (ValueError ''min() arg is an empty sequence'')"
  by (simp add: seq_in_range_def)

lemma seq_in_range_nonempty:
  "xs \<noteq> [] \<Longrightarrow> seq_in_range lo hi xs = Inr ((\<forall>x\<in>set xs. lo \<le> x) \<and> (\<forall>x\<in>set xs. x \<le> hi))"
  by (cases xs) (auto simp: seq_in_range_def fold_min_ge fold_max_le)

lemma seq_in_range_bad:
  assumes "x \<in> set xs" and "\<not> (lo \<le> x \<and> x \<le> hi)"
  shows "seq_in_range lo hi xs = Inr False"
proof -
  have ne: "xs \<noteq> []" using assms(1) by auto
  have "\<not> ((\<forall>x\<in>set xs. lo \<le> x) \<and> (\<forall>x\<in>set xs. x \<le> hi))"
    using assms by blast
  then show ?thesis
    by (simp only: seq_in_range_nonempty [OF ne])
qed

lemma ang2ipix_seq_dec_bad:
  assumes "d \<in> set decs" and "d < - 90 \<or> 90 < d"
  shows "ang2ipix K q (ASeq ras) (ASeq decs) None = Inl (ValueError ''ang2ipix: dec out of range [-90,90]'')"
proof -
  have "\<not> (- 90 \<le> d \<and> d \<le> 90)" using assms(2) by auto
  then have "seq_in_range (- 90) 90 decs = Inr False"
    by (rule seq_in_range_bad [OF assms(1)])
  then show ?thesis
    by (simp add: ang2ipix_def)
qed

lemma ang2ipix_seq_ra_bad:
  assumes "r \<in> set ras" and "r < 0 \<or> 360 < r"
  shows "raises_ValueError (ang2ipix K q (ASeq ras) (ASeq decs) None)"
proof -
  have "\<not> (0 \<le> r \<and> r \<le> 360)" using assms(2) by auto
  then have bad: "seq_in_range 0 360 ras = Inr False"
    by (rule seq_in_range_bad [OF assms(1)])
  show ?thesis
  proof (cases "decs = []")
    case True
    then show ?thesis
      by (simp add: ang2ipix_def seq_in_range_Nil raises_ValueError_def)
  next
    case False
    then obtain b where "seq_in_range (- 90) 90 decs = Inr b"
      by (simp add: seq_in_range_nonempty)
    then show ?thesis
      using bad by (cases b) (simp_all add: ang2ipix_def raises_ValueError_def)
  qed
qed

text \<open>The \<^verbatim>\<open>points\<close> form never reaches the kernel: line 121 compares with
  \<^verbatim>\<open>None\<close>.\<close>

lemma ang2ipix_points_TypeError: "ang2ipix K q ANone ANone (Some pts) = Inl TypeError"
  by (simp add: ang2ipix_def)

text \<open>
  Claim C4. Given sequences for \<^verbatim>\<open>ra\<close> and \<^verbatim>\<open>dec\<close>, \<^verbatim>\<open>ang2ipix\<close> raises a
  ValueError (the specification's DomainError) whenever some \<open>dec\<close> is outside
  [-90,90] or some \<open>ra\<close> is outside [0,360]. Given numbers of which one is out of
  range, it raises nothing: the pair is passed through \<^verbatim>\<open>_normalize_ang\<close> and the
  kernel is called on the normalised pair.
\<close>

theorem ang2ipix_vector_raises_scalar_normalizes:
  "((\<exists>d\<in>set decs. d < - 90 \<or> 90 < d) \<or> (\<exists>r\<in>set ras. r < 0 \<or> 360 < r) \<longrightarrow>
      raises_ValueError (ang2ipix K q (ASeq ras) (ASeq decs) None))
   \<and> (\<not> ((- 90 \<le> dec \<and> dec \<le> 90) \<and> (0 \<le> ra \<and> ra \<le> 360)) \<longrightarrow>
        ang2ipix K q (AScalar ra) (AScalar dec) None
          = Inr (k_ang2ipix K (hprm q) (fst (normalize_ang K (ra, dec))) (snd (normalize_ang K (ra, dec)))))"
proof (intro conjI impI)
  assume "(\<exists>d\<in>set decs. d < - 90 \<or> 90 < d) \<or> (\<exists>r\<in>set ras. r < 0 \<or> 360 < r)"
  then show "raises_ValueError (ang2ipix K q (ASeq ras) (ASeq decs) None)"
  proof
    assume "\<exists>d\<in>set decs. d < - 90 \<or> 90 < d"
    then obtain d where "d \<in> set decs" "d < - 90 \<or> 90 < d" by blast
    then show ?thesis
      by (simp add: ang2ipix_seq_dec_bad raises_ValueError_def)
  next
    assume "\<exists>r\<in>set ras. r < 0 \<or> 360 < r"
    then obtain r where "r \<in> set ras" "r < 0 \<or> 360 < r" by blast
    then show ?thesis by (rule ang2ipix_seq_ra_bad)
  qed
next
  assume "\<not> ((- 90 \<le> dec \<and> dec \<le> 90) \<and> (0 \<le> ra \<and> ra \<le> 360))"
  then show "ang2ipix K q (AScalar ra) (AScalar dec) None
      = Inr (k_ang2ipix K (hprm q) (fst (normalize_ang K (ra, dec))) (snd (normalize_ang K (ra, dec))))"
    by (simp add: ang2ipix_def split: prod.splits)
qed

theorem ang2ipix_asymmetry_witness:
  "raises_ValueError (ang2ipix toy_kernel toy_qlsc (ASeq [10, 70]) (ASeq [0, 91]) None)
   \<and> raises_ValueError (ang2ipix toy_kernel toy_qlsc (ASeq [10, 361]) (ASeq [0, 45]) None)
   \<and> ang2ipix toy_kernel toy_qlsc (AScalar 70) (AScalar 91) None = Inr 1"
proof -
  have n: "normalize_ang toy_kernel (70, 91) = (70, 90)"
    by (simp add: toy_kernel_def toy_normalize_def)
  have k: "k_ang2ipix toy_kernel (hprm toy_qlsc) 70 90 = 1"
    by (simp add: toy_kernel_def toy_ang2ipix_def)
  show ?thesis
    using ang2ipix_vector_raises_scalar_normalizes
            [of "[0, 91]" "[10, 70]" toy_kernel toy_qlsc 91 70]
          ang2ipix_vector_raises_scalar_normalizes
            [of "[0, 45]" "[10, 361]" toy_kernel toy_qlsc 91 70]
          n k
    by simp
qed

lemma toy_roundtrip: "kernel_roundtrip toy_kernel ()"
proof -
  have "toy_ang2ipix (60 * real_of_int i + 30) = i" if "0 \<le> i" "i < 6" for i
  proof -
    from that have "i = 0 \<or> i = 1 \<or> i = 2 \<or> i = 3 \<or> i = 4 \<or> i = 5" by arith
    then show ?thesis by (auto simp: toy_ang2ipix_def)
  qed
  moreover have "0 \<le> 60 * real_of_int i + 30 \<and> 60 * real_of_int i + 30 \<le> 360" if "0 \<le> i" "i < 6" for i
    using that by auto
  ultimately show ?thesis
    by (simp add: kernel_roundtrip_def toy_kernel_def)
qed

text \<open>
  Claim C2. For a kernel that keeps its contract (\<open>kernel_roundtrip\<close>) and every pixel
  id \<open>ipix\<close> with \<open>0 \<le> ipix < nbins\<close>, \<^verbatim>\<open>ipix2ang\<close> returns a pair of angles and
  \<^verbatim>\<open>ang2ipix\<close> of that pair returns \<open>ipix\<close>: neither the bounds check of
  \<^verbatim>\<open>ipix2ang\<close> nor the range test and normalisation of \<^verbatim>\<open>ang2ipix\<close> get in
  the way of the kernel's round trip.
\<close>

theorem ipix2ang_ang2ipix_roundtrip:
  assumes "kernel_roundtrip K (hprm q)" and "0 \<le> ipix" and "ipix < nbins K q"
  shows "\<exists>ra dec. ipix2ang K q ipix = Inr (ra, dec)
           \<and> ang2ipix K q (AScalar ra) (AScalar dec) None = Inr ipix"
proof -
  obtain ra dec where a: "k_ipix2ang K (hprm q) ipix = (ra, dec)"
    by (cases "k_ipix2ang K (hprm q) ipix")
  have "0 \<le> ipix \<and> ipix < (k_nside K (hprm q))\<^sup>2 * 6"
    using assms(2,3) by (simp add: nbins_def nside_def)
  with assms(1) a have r: "0 \<le> ra \<and> ra \<le> 360 \<and> - 90 \<le> dec \<and> dec \<le> 90 \<and> k_ang2ipix K (hprm q) ra dec = ipix"
    unfolding kernel_roundtrip_def by fastforce
  have "ipix2ang K q ipix = Inr (ra, dec)"
    using assms(2,3) a by (simp add: ipix2ang_def)
  moreover have "ang2ipix K q (AScalar ra) (AScalar dec) None = Inr ipix"
    using r by (simp add: ang2ipix_def)
  ultimately show ?thesis by blast
qed

theorem ipix2ang_ang2ipix_roundtrip_witness:
  "kernel_roundtrip toy_kernel (hprm toy_qlsc) \<and> (0::int) \<le> 4 \<and> 4 < nbins toy_kernel toy_qlsc
   \<and> ipix2ang toy_kernel toy_qlsc 4 = Inr (270, 0)
   \<and> ang2ipix toy_kernel toy_qlsc (AScalar 270) (AScalar 0) None = Inr 4"
proof -
  have c: "kernel_roundtrip toy_kernel (hprm toy_qlsc)"
    using toy_roundtrip by (simp add: toy_qlsc_def)
  have b: "4 < nbins toy_kernel toy_qlsc"
    by (simp add: nbins_def nside_def toy_kernel_def)
  have e: "ipix2ang toy_kernel toy_qlsc 4 = Inr (270, 0)"
    using b by (simp add: ipix2ang_def toy_kernel_def)
  show ?thesis
    using ipix2ang_ang2ipix_roundtrip [OF c _ b] c b e by auto
qed

subsection \<open>add_points\<close>

lemma insert_pairs_no_commit:
  "c + length xs \<le> 50000 \<Longrightarrow>
     insert_pairs (xs @ rest) c db = insert_pairs rest (c + length xs) (db\<lparr>pending := pending db @ xs\<rparr>)"
proof (induction xs arbitrary: c db)
  case Nil
  then show ?case by simp
next
  case (Cons x xs)
  from Cons.prems have le: "Suc c + length xs \<le> 50000" by simp
  from Cons.prems have "\<not> c + 1 > 50000" by simp
  then have "insert_pairs ((x # xs) @ rest) c db = insert_pairs (xs @ rest) (Suc c) (execute_insert db x)"
    by simp
  also have "\<dots> = insert_pairs rest (Suc c + length xs)
                    ((execute_insert db x)\<lparr>pending := pending (execute_insert db x) @ xs\<rparr>)"
    by (rule Cons.IH [OF le])
  finally show ?case
    by (simp add: execute_insert_def)
qed

lemma insert_pairs_batch:
  assumes "c + length xs = 50000"
  shows "insert_pairs (xs @ x # rest) c db
           = insert_pairs rest 0 (commit BatchCommit (db\<lparr>pending := pending db @ xs @ [x]\<rparr>))"
proof -
  have "insert_pairs (xs @ x # rest) c db
          = insert_pairs (x # rest) 50000 (db\<lparr>pending := pending db @ xs\<rparr>)"
    using insert_pairs_no_commit [of c xs "x # rest" db] assms by simp
  then show ?thesis
    by (simp add: execute_insert_def)
qed

lemma replicate_120000:
  "replicate 120000 p = replicate 50000 p @ p # replicate 50000 p @ p # replicate 19998 p @ []"
proof -
  have "replicate (50000 + Suc (50000 + Suc 19998)) p
          = replicate 50000 p @ p # replicate 50000 p @ p # replicate 19998 p @ []"
    by (simp only: replicate_add replicate_Suc append_Nil2)
  then show ?thesis by simp
qed

lemma insert_pairs_120000:
  "insert_pairs (replicate 120000 p) 0 empty_db
     = (19998, \<lparr>committed = replicate 100002 p, pending = replicate 19998 p,
               commit_log = [(BatchCommit, 50001), (BatchCommit, 100002)], closed = False\<rparr>)"
proof -
  have "replicate 50000 p @ replicate 1 p = replicate (50000 + 1) p"
    by (rule replicate_add [symmetric])
  then have r1: "replicate 50000 p @ [p] = replicate 50001 p"
    by simp
  have r2: "replicate 50001 p @ replicate 50001 p = replicate 100002 p"
    using replicate_add [of 50001 50001 p, symmetric] by simp
  have s1: "insert_pairs (replicate 120000 p) 0 empty_db
      = insert_pairs (replicate 50000 p @ p # replicate 19998 p @ []) 0
          \<lparr>committed = replicate 50001 p, pending = [],
           commit_log = [(BatchCommit, 50001)], closed = False\<rparr>"
    unfolding replicate_120000
    by (subst insert_pairs_batch) (simp_all add: commit_def empty_db_def r1)
  have s2: "insert_pairs (replicate 50000 p @ p # replicate 19998 p @ []) 0
          \<lparr>committed = replicate 50001 p, pending = [],
           commit_log = [(BatchCommit, 50001)], closed = False\<rparr>
      = insert_pairs (replicate 19998 p @ []) 0
          \<lparr>committed = replicate 100002 p, pending = [],
           commit_log = [(BatchCommit, 50001), (BatchCommit, 100002)], closed = False\<rparr>"
    by (subst insert_pairs_batch) (simp_all add: commit_def r1 r2)
  have s3: "insert_pairs (replicate 19998 p @ []) 0
          \<lparr>committed = replicate 100002 p, pending = [],
           commit_log = [(BatchCommit, 50001), (BatchCommit, 100002)], closed = False\<rparr>
      = (19998, \<lparr>committed = replicate 100002 p, pending = replicate 19998 p,
               commit_log = [(BatchCommit, 50001), (BatchCommit, 100002)], closed = False\<rparr>)"
    by (subst insert_pairs_no_commit) simp_all
  show ?thesis
    by (simp only: s1 s2 s3)
qed

lemma insert_pairs_50000:
  "insert_pairs (replicate 50000 p) 0 empty_db
     = (50000, \<lparr>committed = [], pending = replicate 50000 p, commit_log = [], closed = False\<rparr>)"
  using insert_pairs_no_commit [of 0 "replicate 50000 p" "[]" empty_db]
  by (simp add: empty_db_def)

text \<open>
  Claim C3 says that \<^verbatim>\<open>add_points\<close> commits after every 50,000 rows. The test of
  lines 513 and 520 is \<^verbatim>\<open>count > 50000\<close> after the increment, so a batch is
  50,001 rows. Inserting 120,000 points into a new index commits inside the loop after
  rows 50,001 and 100,002, and once more on leaving the \<^verbatim>\<open>with\<close> block; the table
  then holds 120,000 rows. Inserting exactly 50,000 points commits only on leaving the
  \<^verbatim>\<open>with\<close> block: no batch commit follows the 50,000th row.
\<close>

theorem add_points_batch_commits:
  "add_points (QLSCIndex_init q) None None (Some (replicate 120000 p))
     = (None, \<lparr>qlsc = q,
               data_source = Connection
                 \<lparr>committed = replicate 120000 p, pending = [],
                  commit_log = [(BatchCommit, 50001), (BatchCommit, 100002), (ExitCommit, 120000)],
                  closed = False\<rparr>\<rparr>)
   \<and> number_of_points (snd (add_points (QLSCIndex_init q) None None (Some (replicate 120000 p))))
       = Inr 120000
   \<and> add_points (QLSCIndex_init q) None None (Some (replicate 50000 p))
       = (None, \<lparr>qlsc = q,
                 data_source = Connection
                   \<lparr>committed = replicate 50000 p, pending = [],
                    commit_log = [(ExitCommit, 50000)], closed = False\<rparr>\<rparr>)"
proof -
  have r: "replicate 100002 p @ replicate 19998 p = replicate 120000 p"
    using replicate_add [of 100002 19998 p, symmetric] by simp
  have a: "add_points (QLSCIndex_init q) None None (Some (replicate 120000 p))
     = (None, \<lparr>qlsc = q,
               data_source = Connection
                 \<lparr>committed = replicate 120000 p, pending = [],
                  commit_log = [(BatchCommit, 50001), (BatchCommit, 100002), (ExitCommit, 120000)],
                  closed = False\<rparr>\<rparr>)"
    by (simp add: add_points_def truthy_list_def QLSCIndex_init_def insert_pairs_120000 commit_def r)
       (simp add: empty_db_def)
  have b: "add_points (QLSCIndex_init q) None None (Some (replicate 50000 p))
       = (None, \<lparr>qlsc = q,
                 data_source = Connection
                   \<lparr>committed = replicate 50000 p, pending = [],
                    commit_log = [(ExitCommit, 50000)], closed = False\<rparr>\<rparr>)"
    by (simp add: add_points_def truthy_list_def QLSCIndex_init_def insert_pairs_50000 commit_def)
       (simp add: empty_db_def)
  show ?thesis
    unfolding a b by (simp add: number_of_points_def select_rows_def)
qed

subsection \<open>radial_query\<close>

lemma list_ex_upt_50: "list_ex P [0..<50] \<longleftrightarrow> (\<exists>i<50. P i)"
  unfolding list_ex_iff by (simp only: set_upt) auto

lemma ang2ipix_scalar_total:
  "\<exists>ipix. ang2ipix K q (AScalar ra) (AScalar dec) None = Inr ipix"
  by (simp add: ang2ipix_def split: prod.splits)

lemma spec_accepts_iff:
  assumes "ang2ipix K q (AScalar ra) (AScalar dec) None = Inr ipix"
  shows "spec_accepts K q center_ra center_dec radius (ra, dec) \<longleftrightarrow>
      ((\<exists>i<50. in_interval K (hprm q) center_ra center_dec radius 1 ipix i)
       \<or> (\<exists>i<50. in_interval K (hprm q) center_ra center_dec radius 0 ipix i))
      \<and> k_sindist K ra dec center_ra center_dec < (sin (deg2rad radius / 2))\<^sup>2"
  by (simp add: spec_accepts_def assms in_interval_def deg2rad_def Bex_def)

lemma radial_match_spec:
  "radial_match K idx ra dec center_ra center_dec radius
     = Inr (spec_accepts K (qlsc idx) center_ra center_dec radius (ra, dec))"
proof -
  obtain ipix where a: "ang2ipix K (qlsc idx) (AScalar ra) (AScalar dec) None = Inr ipix"
    using ang2ipix_scalar_total by blast
  show ?thesis
    by (simp only: radial_match_def a spec_accepts_iff [OF a] list_ex_upt_50 Let_def sum.case)
qed

lemma scan_rows_filter:
  "scan_rows K idx center_ra center_dec radius rows matches
     = Inr (matches @ filter (spec_accepts K (qlsc idx) center_ra center_dec radius) rows)"
proof (induction rows arbitrary: matches)
  case Nil
  then show ?case by simp
next
  case (Cons row rows)
  obtain ra dec where r: "row = (ra, dec)" by (cases row)
  show ?case
    unfolding r by (simp add: radial_match_spec Cons.IH)
qed

lemma toy_threshold: "(sin (60 * pi / 180 / 2))\<^sup>2 = 1 / 4"
proof -
  have "60 * pi / 180 / 2 = pi / 6" by simp
  then show ?thesis by (simp add: sin_30 power2_eq_square)
qed

lemma toy_interval:
  "in_interval toy_kernel () cra cdec r zone ipix i \<longleftrightarrow> zone = 1 \<and> i = 0 \<and> 0 \<le> ipix \<and> ipix < 3"
  by (auto simp: in_interval_def toy_kernel_def)

lemma toy_cover:
  assumes "0 \<le> ra" and "ra \<le> 360"
  shows "spec_accepts toy_kernel toy_qlsc 170 0 60 (ra, 0)
     \<longleftrightarrow> (0 \<le> toy_ang2ipix ra \<and> toy_ang2ipix ra < 3) \<and> \<bar>ra - 170\<bar> / 360 < 1 / 4"
proof -
  have a: "ang2ipix toy_kernel toy_qlsc (AScalar ra) (AScalar 0) None = Inr (toy_ang2ipix ra)"
    using assms by (simp add: ang2ipix_def toy_kernel_def)
  have t: "(sin (deg2rad 60 / 2))\<^sup>2 = 1 / 4"
    using toy_threshold by (simp add: deg2rad_def)
  have h: "hprm toy_qlsc = ()" by simp
  have k: "k_sindist toy_kernel ra 0 170 0 = \<bar>ra - 170\<bar> / 360"
    by (simp add: toy_kernel_def)
  show ?thesis
    unfolding spec_accepts_iff [OF a] h toy_interval t k by auto
qed

text \<open>
  Claim C1. Over a store backed by an open SQLite connection, \<^verbatim>\<open>radial_query\<close>
  raises nothing and returns exactly the stored rows that \<open>spec_accepts\<close> accepts
  (pixel id in the union of the fifty intervals of zone 1 and the fifty of zone 0, and
  distance metric strictly below the squared sine of half the radius), in the order of
  the rows of the store; when no row is accepted the result is the empty list.
\<close>

theorem radial_query_returns_accepted_rows:
  assumes "data_source idx = Connection db" and "\<not> closed db"
  shows "radial_query K idx center_ra center_dec radius
           = Inr (filter (spec_accepts K (qlsc idx) center_ra center_dec radius) (select_rows db))"
  using assms by (simp add: radial_query_def scan_rows_filter)

theorem radial_query_witness:
  "data_source toy_index = Connection (empty_db\<lparr>committed := [(170, 0), (20, 0), (200, 0), (100, 0)]\<rparr>)
   \<and> \<not> closed (empty_db\<lparr>committed := [(170, 0), (20, 0), (200, 0), (100, 0)]\<rparr>)
   \<and> radial_query toy_kernel toy_index 170 0 60 = Inr [(170, 0), (100, 0)]"
proof -
  have d: "data_source toy_index = Connection (empty_db\<lparr>committed := [(170, 0), (20, 0), (200, 0), (100, 0)]\<rparr>)"
    by (simp add: toy_index_def)
  have c: "\<not> closed (empty_db\<lparr>committed := [(170, 0), (20, 0), (200, 0), (100, 0)]\<rparr>)"
    by (simp add: empty_db_def)
  have q: "qlsc toy_index = toy_qlsc" by (simp add: toy_index_def)
  have f: "filter (spec_accepts toy_kernel toy_qlsc 170 0 60)
             (select_rows (empty_db\<lparr>committed := [(170, 0), (20, 0), (200, 0), (100, 0)]\<rparr>))
           = [(170, 0), (100, 0)]"
    by (simp add: select_rows_def empty_db_def toy_cover toy_ang2ipix_def)
  show ?thesis
    using radial_query_returns_accepted_rows [OF d c, of toy_kernel 170 0 60] d c
    by (simp only: q f simp_thms)
qed

end
